theory Spec2Isabelle
  imports Complex_Main "HOL-Library.Sublist"
begin

section \<open>Strings and regular expressions of the handlers\<close>

text \<open>
  Texts are HOL strings holding the UTF-8 bytes of the JavaScript string. The handlers'
  patterns are written in ASCII (and in fixed byte sequences for their markers), so a
  byte-wise match agrees with the match on code units; the white space class is the ASCII
  one (tab, line feed, vertical tab, form feed, carriage return, space) and the line
  terminators are line feed and carriage return.
\<close>

definition is_space :: "char \<Rightarrow> bool" where
  "is_space c = (c \<in> set [CHR 0x09, CHR 0x0A, CHR 0x0B, CHR 0x0C, CHR 0x0D, CHR '' ''])"

definition is_line_terminator :: "char \<Rightarrow> bool" where
  "is_line_terminator c = (c = CHR 0x0A \<or> c = CHR 0x0D)"

definition is_digit :: "char \<Rightarrow> bool" where
  "is_digit c = (c \<in> set ''0123456789'')"

definition is_upper :: "char \<Rightarrow> bool" where
  "is_upper c = (c \<in> set ''ABCDEFGHIJKLMNOPQRSTUVWXYZ'')"

definition is_lower :: "char \<Rightarrow> bool" where
  "is_lower c = (c \<in> set ''abcdefghijklmnopqrstuvwxyz'')"

definition is_word :: "char \<Rightarrow> bool" where
  "is_word c = (is_upper c \<or> is_lower c \<or> is_digit c \<or> c = CHR ''_'')"

definition to_upper :: "char \<Rightarrow> char" where
  "to_upper c = (if is_lower c then char_of (of_char c - (32::nat)) else c)"

definition toUpperCase :: "string \<Rightarrow> string" where
  "toUpperCase s = map to_upper s"

definition trim :: "string \<Rightarrow> string" where
  "trim s = rev (dropWhile is_space (rev (dropWhile is_space s)))"

text \<open>Character sets of a pattern: a literal, a literal under the \<open>i\<close> flag, the classes
  \<open>\d\<close>, \<open>\s\<close>, \<open>\w\<close>, the dot (without and with the \<open>s\<close> flag), a bracket list and a negated one.\<close>

datatype cset =
    Exactly char
  | IgnoreCase char
  | Digit
  | Space
  | Word
  | Dot
  | AnyChar
  | OneOf string
  | NoneOf string

fun in_cset :: "cset \<Rightarrow> char \<Rightarrow> bool" where
  "in_cset (Exactly a) c = (c = a)"
| "in_cset (IgnoreCase a) c = (to_upper c = to_upper a)"
| "in_cset Digit c = is_digit c"
| "in_cset Space c = is_space c"
| "in_cset Word c = is_word c"
| "in_cset Dot c = (\<not> is_line_terminator c)"
| "in_cset AnyChar c = True"
| "in_cset (OneOf cs) c = (c \<in> set cs)"
| "in_cset (NoneOf cs) c = (c \<notin> set cs)"

datatype re =
    Atom cset
  | Empty
  | Seq re re
  | Alt re re
  | Star re
  | LazyStar re
  | Cap nat re
  | Bol
  | BolM
  | Eol
  | EolM
  | WordB

text \<open>A matcher state: the text consumed so far (reversed), the text ahead, and the
  capture groups set so far (the latest binding of a group first).\<close>

type_synonym mstate = "string \<times> string \<times> (nat \<times> string) list"

definition ahead :: "mstate \<Rightarrow> string" where
  "ahead st = fst (snd st)"

definition at_word :: "string \<Rightarrow> bool" where
  "at_word s = (case s of [] \<Rightarrow> False | c # _ \<Rightarrow> is_word c)"

definition at_line_break :: "string \<Rightarrow> bool" where
  "at_line_break s = (case s of [] \<Rightarrow> True | c # _ \<Rightarrow> is_line_terminator c)"

text \<open>The backtracking matcher: all the ways the pattern matches at the state, in the
  order a backtracking engine tries them (the first alternative first, a greedy star
  longest first, a lazy star shortest first). An iteration of a star that consumes nothing
  is rejected, as ECMAScript does.\<close>

function rmatch :: "re \<Rightarrow> mstate \<Rightarrow> mstate list" where
  "rmatch (Atom cs) (p, r, g) =
     (case r of [] \<Rightarrow> [] | c # r' \<Rightarrow> if in_cset cs c then [(c # p, r', g)] else [])"
| "rmatch Empty st = [st]"
| "rmatch (Seq a b) st = concat (map (rmatch b) (rmatch a st))"
| "rmatch (Alt a b) st = rmatch a st @ rmatch b st"
| "rmatch (Star a) st =
     concat (map (\<lambda>st'. if length (ahead st') < length (ahead st) then rmatch (Star a) st' else [])
                 (rmatch a st)) @ [st]"
| "rmatch (LazyStar a) st =
     st # concat (map (\<lambda>st'. if length (ahead st') < length (ahead st) then rmatch (LazyStar a) st' else [])
                      (rmatch a st))"
| "rmatch (Cap n a) (p, r, g) =
     map (\<lambda>(p', r', g'). (p', r', (n, take (length r - length r') r) # g')) (rmatch a (p, r, g))"
| "rmatch Bol (p, r, g) = (if p = [] then [(p, r, g)] else [])"
| "rmatch BolM (p, r, g) = (if at_line_break p then [(p, r, g)] else [])"
| "rmatch Eol (p, r, g) = (if r = [] then [(p, r, g)] else [])"
| "rmatch EolM (p, r, g) = (if at_line_break r then [(p, r, g)] else [])"
| "rmatch WordB (p, r, g) = (if at_word p \<noteq> at_word r then [(p, r, g)] else [])"
  by pat_completeness auto
termination
  by (relation "inv_image (less_than <*lex*> less_than) (\<lambda>(a, st). (size a, length (ahead st)))") auto


text \<open>Derived pattern forms: \<open>a?\<close>, \<open>a+\<close>, \<open>a+?\<close>, a sequence, a list of alternatives, a
  literal word and a literal word under the \<open>i\<close> flag.\<close>

definition Opt :: "re \<Rightarrow> re" where
  "Opt a = Alt a Empty"

definition Plus :: "re \<Rightarrow> re" where
  "Plus a = Seq a (Star a)"

definition LazyPlus :: "re \<Rightarrow> re" where
  "LazyPlus a = Seq a (LazyStar a)"

fun seqs :: "re list \<Rightarrow> re" where
  "seqs [] = Empty"
| "seqs [a] = a"
| "seqs (a # b # as) = Seq a (seqs (b # as))"

fun alts :: "re list \<Rightarrow> re" where
  "alts [] = Empty"
| "alts [a] = a"
| "alts (a # b # as) = Alt a (alts (b # as))"

definition lits :: "string \<Rightarrow> re" where
  "lits s = seqs (map (\<lambda>c. Atom (Exactly c)) s)"

definition litsI :: "string \<Rightarrow> re" where
  "litsI s = seqs (map (\<lambda>c. Atom (IgnoreCase c)) s)"

text \<open>The result of a successful match, as \<open>String.prototype.match\<close> and \<open>replace\<close> see
  it: the text before the match, the matched text, the text after it, and the groups.\<close>

record rx_match =
  before :: string
  matched :: string
  after :: string
  groups :: "(nat \<times> string) list"

definition rx_group :: "rx_match \<Rightarrow> nat \<Rightarrow> string option" where
  "rx_group m n = map_of (groups m) n"

definition match_at :: "re \<Rightarrow> string \<Rightarrow> string \<Rightarrow> rx_match option" where
  "match_at a p r =
     (case rmatch a (p, r, []) of
        [] \<Rightarrow> None
      | (p', r', g) # _ \<Rightarrow>
          Some \<lparr>before = rev p, matched = take (length r - length r') r, after = r', groups = g\<rparr>)"

text \<open>The search of a pattern without the \<open>g\<close> flag: the leftmost start position at which
  the pattern matches, and there the first match in backtracking order.\<close>

fun exec_from :: "re \<Rightarrow> string \<Rightarrow> string \<Rightarrow> rx_match option" where
  "exec_from a p [] = match_at a p []"
| "exec_from a p (c # r) =
     (case match_at a p (c # r) of
        Some m \<Rightarrow> Some m
      | None \<Rightarrow> exec_from a (c # p) r)"

definition rx_exec :: "re \<Rightarrow> string \<Rightarrow> rx_match option" where
  "rx_exec a s = exec_from a [] s"

definition rx_test :: "re \<Rightarrow> string \<Rightarrow> bool" where
  "rx_test a s = (rx_exec a s \<noteq> None)"

definition js_includes :: "string \<Rightarrow> string \<Rightarrow> bool" where
  "js_includes s pat = sublist pat s"

section \<open>implicit-sentiment.ts: the explicit-rating guard\<close>

text \<open>\<^verbatim>\<open>/^(10|[1-9])(?:\s*[-:]\s*|\s+)?(.*)$/\<close>\<close>

definition ratingPattern :: re where
  "ratingPattern =
     seqs [Bol,
           Cap 1 (Alt (lits ''10'') (Atom (OneOf ''123456789''))),
           Opt (Alt (seqs [Star (Atom Space), Atom (OneOf ''-:''), Star (Atom Space)])
                    (Plus (Atom Space))),
           Cap 2 (Star (Atom Dot)),
           Eol]"

text \<open>\<^verbatim>\<open>/^(items?|things?|steps?|files?|lines?|bugs?|issues?|errors?|times?|minutes?|hours?|days?|seconds?|percent|%|th\b|st\b|nd\b|rd\b|of\b|in\b|at\b|to\b|the\b|a\b|an\b)/i\<close>\<close>

definition plural :: "string \<Rightarrow> re" where
  "plural w = Seq (litsI w) (Opt (Atom (IgnoreCase CHR ''s'')))"

definition whole :: "string \<Rightarrow> re" where
  "whole w = Seq (litsI w) WordB"

definition sentenceStarters :: re where
  "sentenceStarters =
     Seq Bol
       (Cap 1 (alts [plural ''item'', plural ''thing'', plural ''step'', plural ''file'',
                     plural ''line'', plural ''bug'', plural ''issue'', plural ''error'',
                     plural ''time'', plural ''minute'', plural ''hour'', plural ''day'',
                     plural ''second'', litsI ''percent'', litsI ''%'',
                     whole ''th'', whole ''st'', whole ''nd'', whole ''rd'', whole ''of'',
                     whole ''in'', whole ''at'', whole ''to'', whole ''the'', whole ''a'',
                     whole ''an'']))"

definition isExplicitRating :: "string \<Rightarrow> bool" where
  "isExplicitRating prompt =
     (let trimmed = trim prompt in
      case rx_exec ratingPattern trimmed of
        None \<Rightarrow> False
      | Some m \<Rightarrow>
          (case map_option trim (rx_group m 2) of
             None \<Rightarrow> True
           | Some comment \<Rightarrow>
               if comment \<noteq> [] \<and> rx_test sentenceStarters comment then False else True))"


section \<open>The world the handlers run in\<close>

text \<open>
  The handlers act on the file system, on a log and on the clock. The world records what
  the claims are about: the lines of \<open>ratings.jsonl\<close>, the learning files, the ISC and
  thread documents of the tasks, the current-work pointer, the transcripts, the
  directories, the log, the time in milliseconds, the number of calls made to the
  inference collaborator and the paths of the files written or appended to, in order.
  JSON files are held parsed: a file whose text \<open>JSON.parse\<close> rejects is
  \<open>Malformed\<close> with its bytes, a file that parses is \<open>Parsed\<close> with its value,
  and writing \<open>JSON.stringify\<close> of a value stores that value.
\<close>

datatype level = Debug | Info | Warn | Err

datatype exn = SyntaxError | IOError string | Rejected

datatype 'a json_file = Malformed string | Parsed 'a

datatype sentiment_label = Positive | Negative | Neutral

record SentimentResult =
  rating :: "real option"
  sentiment :: sentiment_label
  confidence :: real
  summary :: string
  detailed_context :: string

record ImplicitRatingEntry =
  timestamp :: string
  e_rating :: real
  session_id :: string
  source :: string
  sentiment_summary :: string
  e_confidence :: real

record InferenceResult =
  success :: bool
  parsed :: "SentimentResult option"
  error :: string

text \<open>What a promise does: it resolves with a value or rejects, so many milliseconds after
  it was created, or it never settles.\<close>

datatype 'a promise = Resolves nat 'a | Rejects nat | Never

record Satisfaction =
  satisfied :: nat
  partial :: nat
  failed :: nat
  total :: nat

record ISCDocument =
  taskId :: string
  status :: string
  effortLevel :: string
  criteria :: "string list"
  antiCriteria :: "string list"
  satisfaction :: "Satisfaction option"
  createdAt :: string
  updatedAt :: string

record StructuredResponse =
  r_summary :: "string option"
  r_analysis :: "string option"
  r_actions :: "string option"
  r_results :: "string option"
  r_status :: "string option"
  r_next :: "string option"
  r_completed :: "string option"
  r_date :: "string option"

record CurrentWork =
  cw_session_id :: string
  session_dir :: string
  current_task :: string
  task_count :: nat
  created_at :: string

text \<open>A transcript line: its JSON gives an entry with a \<open>type\<close> and a
  \<open>message.content\<close>, or nothing usable. The content is absent, a string, a list of
  blocks (each a \<open>type\<close> and a \<open>text\<close>) or some other value.\<close>

datatype content = NoContent | Str string | Blocks "(string \<times> string) list" | OtherContent

datatype tline = Unusable | Entry string content

text \<open>A learning file is a fixed markdown template filled with these values: for a low
  rating the time stamp, the rating, the summary, the detailed context and the response
  context; for a captured response the structured response, the full text and the time
  stamp.\<close>

datatype learning_doc =
    SentimentLearning string real string string string
  | WorkLearning StructuredResponse string string

record world =
  clock :: nat
  log :: "(level \<times> string) list"
  dirs :: "string set"
  ratings :: "ImplicitRatingEntry list"
  learning_files :: "string \<rightharpoonup> learning_doc"
  isc_files :: "string \<rightharpoonup> ISCDocument json_file"
  thread_files :: "string \<rightharpoonup> string"
  current_work_file :: "CurrentWork json_file option"
  transcripts :: "string \<rightharpoonup> tline list"
  inference_calls :: nat
  written :: "string list"

text \<open>The collaborators that are not part of these handlers: the inference tool, the
  learning classifiers, the configured directories, the formatting of a date and of a
  number, the file name of a captured response (the description taken from the structured
  response, cleaned up and stamped with the time), and the file system's faults (an
  operation on a faulty path throws).\<close>

record env =
  inference :: "string \<Rightarrow> InferenceResult promise"
  getLearningCategory :: "string \<Rightarrow> string \<Rightarrow> string"
  isLearningCapture :: "string \<Rightarrow> string option \<Rightarrow> string option \<Rightarrow> bool"
  getLearningDir :: string
  getMemoryDir :: string
  getWorkDir :: string
  getStateDir :: string
  toISOString :: "nat \<Rightarrow> string"
  yearMonth :: "nat \<Rightarrow> string"
  pstTimestamp :: "nat \<Rightarrow> string"
  number_text :: "real \<Rightarrow> string"
  learningFilename :: "StructuredResponse \<Rightarrow> nat \<Rightarrow> string"
  io_fault :: "string \<Rightarrow> bool"

text \<open>A computation changes the world and returns a value or throws; what it did to the
  world before it threw stays done.\<close>

type_synonym 'a comp = "world \<Rightarrow> (exn + 'a) \<times> world"

definition ok :: "'a \<Rightarrow> 'a comp" where
  "ok x w = (Inr x, w)"

definition throw :: "exn \<Rightarrow> 'a comp" where
  "throw e w = (Inl e, w)"

definition andThen :: "'a comp \<Rightarrow> ('a \<Rightarrow> 'b comp) \<Rightarrow> 'b comp" where
  "andThen m f w = (case m w of (Inl e, w') \<Rightarrow> (Inl e, w') | (Inr x, w') \<Rightarrow> f x w')"

definition tryCatch :: "'a comp \<Rightarrow> (exn \<Rightarrow> 'a comp) \<Rightarrow> 'a comp" where
  "tryCatch m h w = (case m w of (Inl e, w') \<Rightarrow> h e w' | (Inr x, w') \<Rightarrow> (Inr x, w'))"

definition modify :: "(world \<Rightarrow> world) \<Rightarrow> unit comp" where
  "modify f w = (Inr (), f w)"

definition reads :: "(world \<Rightarrow> 'a) \<Rightarrow> 'a comp" where
  "reads f w = (Inr (f w), w)"

definition whenever :: "bool \<Rightarrow> unit comp \<Rightarrow> unit comp" where
  "whenever b m = (if b then m else ok ())"

definition path_join :: "string \<Rightarrow> string \<Rightarrow> string" where
  "path_join a b = a @ ''/'' @ b"

definition fileLog :: "string \<Rightarrow> level \<Rightarrow> unit comp" where
  "fileLog msg lv = modify (\<lambda>w. w\<lparr>log := log w @ [(lv, msg)]\<rparr>)"

definition fileLogError :: "string \<Rightarrow> exn \<Rightarrow> unit comp" where
  "fileLogError msg e = modify (\<lambda>w. w\<lparr>log := log w @ [(Err, msg)]\<rparr>)"

definition mkdirSync :: "env \<Rightarrow> string \<Rightarrow> unit comp" where
  "mkdirSync ev d = (if io_fault ev d then throw (IOError d) else modify (\<lambda>w. w\<lparr>dirs := insert d (dirs w)\<rparr>))"

text \<open>\<open>if (!existsSync(d)) mkdirSync(d, { recursive: true })\<close>\<close>

definition ensureDir :: "env \<Rightarrow> string \<Rightarrow> unit comp" where
  "ensureDir ev d = andThen (reads (\<lambda>w. d \<in> dirs w)) (\<lambda>present. whenever (\<not> present) (mkdirSync ev d))"

definition getISOTimestamp :: "env \<Rightarrow> world \<Rightarrow> string" where
  "getISOTimestamp ev w = toISOString ev (clock w)"

definition getYearMonth :: "env \<Rightarrow> world \<Rightarrow> string" where
  "getYearMonth ev w = yearMonth ev (clock w)"

definition getPSTTimestamp :: "env \<Rightarrow> world \<Rightarrow> string" where
  "getPSTTimestamp ev w = pstTimestamp ev (clock w)"

definition replace_colons :: "string \<Rightarrow> string" where
  "replace_colons s = filter (\<lambda>c. c \<noteq> CHR '':'') s"

definition slice :: "nat \<Rightarrow> nat \<Rightarrow> string \<Rightarrow> string" where
  "slice i j s = drop i (take j s)"

definition getFilenameTimestamp :: "env \<Rightarrow> world \<Rightarrow> string" where
  "getFilenameTimestamp ev w =
     (let iso = toISOString ev (clock w)
      in slice 0 10 iso @ ''-'' @ replace_colons (slice 11 19 iso))"


definition appendFileSync :: "env \<Rightarrow> string \<Rightarrow> ImplicitRatingEntry \<Rightarrow> unit comp" where
  "appendFileSync ev f entry =
     (if io_fault ev f then throw (IOError f)
      else modify (\<lambda>w. w\<lparr>ratings := ratings w @ [entry], written := written w @ [f]\<rparr>))"

definition writeLearningFile :: "env \<Rightarrow> string \<Rightarrow> learning_doc \<Rightarrow> unit comp" where
  "writeLearningFile ev f doc =
     (if io_fault ev f then throw (IOError f)
      else modify (\<lambda>w. w\<lparr>learning_files := (learning_files w)(f \<mapsto> doc),
                          written := written w @ [f]\<rparr>))"

text \<open>Awaiting \<open>Promise.race([p, timeoutPromise])\<close>, where the timeout promise resolves
  with \<open>null\<close> after \<open>ms\<close> milliseconds: the promise that settles first decides, and the
  clock moves to that moment. At a tie the promise listed first, \<open>p\<close>, decides.\<close>

definition awaitRace :: "'a promise \<Rightarrow> nat \<Rightarrow> 'a option comp" where
  "awaitRace p ms w =
     (case p of
        Resolves t v \<Rightarrow>
          if t \<le> ms then (Inr (Some v), w\<lparr>clock := clock w + t\<rparr>)
          else (Inr None, w\<lparr>clock := clock w + ms\<rparr>)
      | Rejects t \<Rightarrow>
          if t \<le> ms then (Inl Rejected, w\<lparr>clock := clock w + t\<rparr>)
          else (Inr None, w\<lparr>clock := clock w + ms\<rparr>)
      | Never \<Rightarrow> (Inr None, w\<lparr>clock := clock w + ms\<rparr>))"

fun map_promise :: "('a \<Rightarrow> 'b) \<Rightarrow> 'a promise \<Rightarrow> 'b promise" where
  "map_promise f (Resolves t v) = Resolves t (f v)"
| "map_promise f (Rejects t) = Rejects t"
| "map_promise f Never = Never"

section \<open>implicit-sentiment.ts: the handler\<close>

definition MIN_PROMPT_LENGTH :: nat where
  "MIN_PROMPT_LENGTH = 3"

definition MIN_CONFIDENCE :: real where
  "MIN_CONFIDENCE = 0.5"

definition ANALYSIS_TIMEOUT :: nat where
  "ANALYSIS_TIMEOUT = 25000"

definition nl :: string where
  "nl = [CHR 0x0A]"

fun joinWith :: "string \<Rightarrow> string list \<Rightarrow> string" where
  "joinWith sep [] = []"
| "joinWith sep [x] = x"
| "joinWith sep (x # y # ys) = x @ sep @ joinWith sep (y # ys)"

definition truthy_content :: "content \<Rightarrow> bool" where
  "truthy_content c =
     (case c of NoContent \<Rightarrow> False | Str s \<Rightarrow> s \<noteq> [] | Blocks bs \<Rightarrow> True | OtherContent \<Rightarrow> True)"

definition content_text :: "content \<Rightarrow> string" where
  "content_text c =
     (case c of
        Str s \<Rightarrow> s
      | Blocks bs \<Rightarrow> joinWith '' '' (map snd (filter (\<lambda>b. fst b = ''text'') bs))
      | NoContent \<Rightarrow> []
      | OtherContent \<Rightarrow> [])"

text \<open>\<^verbatim>\<open>/SUMMARY:\s*([^\n]+)/i\<close>\<close>

definition summaryLine :: re where
  "summaryLine = seqs [litsI ''SUMMARY:'', Star (Atom Space), Cap 1 (Plus (Atom (NoneOf nl)))]"

definition turns_of :: "tline \<Rightarrow> (string \<times> string) list" where
  "turns_of l =
     (case l of
        Unusable \<Rightarrow> []
      | Entry ty c \<Rightarrow>
          (if ty = ''user'' \<and> truthy_content c \<and> trim (content_text c) \<noteq> []
           then [(''User'', slice 0 200 (content_text c))] else []) @
          (if ty = ''assistant'' \<and> truthy_content c \<and> content_text c \<noteq> []
           then [(''Assistant'',
                  case rx_exec summaryLine (content_text c) of
                    Some m \<Rightarrow> (case rx_group m 1 of Some g \<Rightarrow> g | None \<Rightarrow> [])
                  | None \<Rightarrow> slice 0 150 (content_text c))]
           else []))"

definition getRecentContext :: "env \<Rightarrow> string \<Rightarrow> nat \<Rightarrow> world \<Rightarrow> string" where
  "getRecentContext ev transcriptPath maxTurns w =
     (if transcriptPath = [] then []
      else case transcripts w transcriptPath of
        None \<Rightarrow> []
      | Some ls \<Rightarrow>
          if io_fault ev transcriptPath then []
          else let turns = concat (map turns_of ls);
                   recentTurns = drop (length turns - maxTurns) turns
               in if recentTurns = [] then []
                  else joinWith nl (map (\<lambda>(role, text). role @ '': '' @ text) recentTurns))"

text \<open>\<open>transcriptPath ? getRecentContext(transcriptPath) : ''\<close>, with the default of three
  turns.\<close>

definition contextFor :: "env \<Rightarrow> string option \<Rightarrow> world \<Rightarrow> string" where
  "contextFor ev transcriptPath w =
     (case transcriptPath of
        Some p \<Rightarrow> if p \<noteq> [] then getRecentContext ev p 3 w else []
      | None \<Rightarrow> [])"

definition userPrompt :: "string \<Rightarrow> string \<Rightarrow> string" where
  "userPrompt prompt context =
     (if context \<noteq> [] then ''CONTEXT:'' @ nl @ context @ nl @ nl @ ''CURRENT MESSAGE:'' @ nl @ prompt
      else prompt)"

text \<open>\<open>analyzeSentiment\<close> awaits the inference; what it does once the inference has
  resolved (log a failure and return \<open>null\<close>, or return the parsed result) is the value its
  promise carries, run by the handler if this promise wins the race.\<close>

definition analyzeSentiment :: "env \<Rightarrow> string \<Rightarrow> string \<Rightarrow> (SentimentResult option comp) promise" where
  "analyzeSentiment ev prompt context =
     map_promise
       (\<lambda>result.
          if \<not> success result \<or> parsed result = None
          then andThen (fileLog (''[ImplicitSentiment] Inference failed: '' @ error result) Err)
                       (\<lambda>_. ok None)
          else ok (parsed result))
       (inference ev (userPrompt prompt context))"

definition writeImplicitRating :: "env \<Rightarrow> ImplicitRatingEntry \<Rightarrow> unit comp" where
  "writeImplicitRating ev entry =
     (let signalsDir = path_join (getLearningDir ev) ''SIGNALS'';
          ratingsFile = path_join signalsDir ''ratings.jsonl''
      in andThen (ensureDir ev signalsDir) (\<lambda>_.
         andThen (appendFileSync ev ratingsFile entry) (\<lambda>_.
         fileLog (''[ImplicitSentiment] Wrote implicit rating '' @ number_text ev (e_rating entry)
                  @ '' to '' @ ratingsFile) Info)))"

definition responseContextOf :: "env \<Rightarrow> string \<Rightarrow> world \<Rightarrow> string" where
  "responseContextOf ev transcriptPath w =
     (if transcriptPath = [] then []
      else case transcripts w transcriptPath of
        None \<Rightarrow> []
      | Some ls \<Rightarrow>
          if io_fault ev transcriptPath then []
          else slice 0 500
                 (foldl (\<lambda>responseContext l.
                           case l of
                             Unusable \<Rightarrow> responseContext
                           | Entry ty c \<Rightarrow>
                               if ty = ''assistant'' \<and> truthy_content c \<and> content_text c \<noteq> []
                               then content_text c else responseContext)
                        [] ls))"

definition captureLowRatingLearning :: "env \<Rightarrow> real \<Rightarrow> string \<Rightarrow> string \<Rightarrow> string \<Rightarrow> unit comp" where
  "captureLowRatingLearning ev r sentimentSummary detailedContext transcriptPath =
     (if r \<ge> 6 then ok ()
      else
        andThen (reads (getYearMonth ev)) (\<lambda>yearMonth.
        let category = getLearningCategory ev detailedContext sentimentSummary;
            learningsDir = path_join (path_join (getLearningDir ev) category) yearMonth
        in andThen (ensureDir ev learningsDir) (\<lambda>_.
           andThen (reads (responseContextOf ev transcriptPath)) (\<lambda>responseContext.
           andThen (reads (getFilenameTimestamp ev)) (\<lambda>ts.
           let filename = ts @ ''_LEARNING_sentiment-rating-'' @ number_text ev r @ ''.md'';
               filepath = path_join learningsDir filename
           in andThen (reads (getISOTimestamp ev)) (\<lambda>iso.
              andThen (writeLearningFile ev filepath
                         (SentimentLearning iso r sentimentSummary detailedContext responseContext)) (\<lambda>_.
              fileLog (''[ImplicitSentiment] Captured low rating learning to '' @ filepath) Info)))))))"

definition truthy_path :: "string option \<Rightarrow> bool" where
  "truthy_path tp = (case tp of None \<Rightarrow> False | Some p \<Rightarrow> p \<noteq> [])"

text \<open>The handler from the point where the race has produced a sentiment
  (lines 382 to 421 of the handler).\<close>

definition recordSentiment ::
  "env \<Rightarrow> string \<Rightarrow> string option \<Rightarrow> SentimentResult \<Rightarrow> (real \<times> sentiment_label \<times> real) option comp" where
  "recordSentiment ev sessionId transcriptPath sentiment0 =
     andThen (case rating sentiment0 of
                None \<Rightarrow> andThen (fileLog ''[ImplicitSentiment] Neutral sentiment, assigning baseline rating 5'' Info)
                                 (\<lambda>_. ok (5::real))
              | Some r \<Rightarrow> ok r) (\<lambda>r.
     if confidence sentiment0 < MIN_CONFIDENCE
     then andThen (fileLog (''[ImplicitSentiment] Low confidence ('' @ number_text ev (confidence sentiment0)
                            @ ''), not logging'') Info)
                  (\<lambda>_. ok None)
     else
       andThen (fileLog (''[ImplicitSentiment] Detected: '' @ number_text ev r @ ''/10 - ''
                         @ summary sentiment0) Info) (\<lambda>_.
       andThen (reads (getISOTimestamp ev)) (\<lambda>iso.
       andThen (writeImplicitRating ev
                  \<lparr>timestamp = iso, e_rating = r, session_id = sessionId,
                   source = ''implicit'', sentiment_summary = summary sentiment0,
                   e_confidence = confidence sentiment0\<rparr>) (\<lambda>_.
       andThen (whenever (r < 6 \<and> truthy_path transcriptPath)
                  (captureLowRatingLearning ev r (summary sentiment0) (detailed_context sentiment0)
                     (case transcriptPath of Some p \<Rightarrow> p | None \<Rightarrow> []))) (\<lambda>_.
       andThen (fileLog ''[ImplicitSentiment] Done'' Info) (\<lambda>_.
       ok (Some (r, sentiment sentiment0, confidence sentiment0))))))))"

text \<open>The race of lines 370 to 375: the analysis is started (one call of the inference
  collaborator), raced against the timeout and awaited.\<close>

definition awaitSentiment :: "env \<Rightarrow> string \<Rightarrow> string \<Rightarrow> SentimentResult option comp" where
  "awaitSentiment ev prompt context =
     andThen (modify (\<lambda>w. w\<lparr>inference_calls := Suc (inference_calls w)\<rparr>)) (\<lambda>_.
     andThen (awaitRace (analyzeSentiment ev prompt context) ANALYSIS_TIMEOUT) (\<lambda>settled.
     case settled of None \<Rightarrow> ok None | Some continue \<Rightarrow> continue))"

definition handleImplicitSentiment ::
  "env \<Rightarrow> string \<Rightarrow> string \<Rightarrow> string option \<Rightarrow> (real \<times> sentiment_label \<times> real) option comp" where
  "handleImplicitSentiment ev prompt sessionId transcriptPath =
     tryCatch
       (andThen (fileLog ''[ImplicitSentiment] Handler started'' Info) (\<lambda>_.
        if isExplicitRating prompt
        then andThen (fileLog ''[ImplicitSentiment] Explicit rating detected, deferring to ExplicitRatingCapture'' Info)
                     (\<lambda>_. ok None)
        else if length prompt < MIN_PROMPT_LENGTH
        then andThen (fileLog ''[ImplicitSentiment] Prompt too short, exiting'' Debug) (\<lambda>_. ok None)
        else
          andThen (reads (contextFor ev transcriptPath)) (\<lambda>context.
          andThen (awaitSentiment ev prompt context) (\<lambda>sentiment.
          case sentiment of
            None \<Rightarrow> andThen (fileLog ''[ImplicitSentiment] Analysis failed or timed out'' Warn)
                            (\<lambda>_. ok None)
          | Some s \<Rightarrow> recordSentiment ev sessionId transcriptPath s))))
       (\<lambda>err. andThen (fileLogError ''[ImplicitSentiment] Error'' err) (\<lambda>_. ok None))"


section \<open>response-capture.ts\<close>

text \<open>The markers of the response format, as the bytes the source file holds between the
  quotes of its literals. A pattern matches these bytes exactly.\<close>

definition mark_summary :: string where
  "mark_summary = [CHR 0xEF, CHR 0xA3, CHR 0xBF, CHR 0xC3, CHR 0xBC, CHR 0xC3, CHR 0xAC, CHR 0xC3, CHR 0xA3]"

definition mark_analysis :: string where
  "mark_analysis = [CHR 0xEF, CHR 0xA3, CHR 0xBF, CHR 0xC3, CHR 0xBC, CHR 0xC3, CHR 0xAE, CHR 0xC3, CHR 0xA7]"

definition mark_actions :: string where
  "mark_actions = [CHR 0xE2, CHR 0x80, CHR 0x9A, CHR 0xC3, CHR 0xB6, CHR 0xC2, CHR 0xB0]"

definition mark_results :: string where
  "mark_results = [CHR 0xE2, CHR 0x80, CHR 0x9A, CHR 0xC3, CHR 0xBA, CHR 0xC3, CHR 0x96]"

definition mark_status :: string where
  "mark_status = [CHR 0xEF, CHR 0xA3, CHR 0xBF, CHR 0xC3, CHR 0xBC, CHR 0xC3, CHR 0xAC, CHR 0xC3, CHR 0xA4]"

definition mark_next :: string where
  "mark_next = [CHR 0xE2, CHR 0x80, CHR 0x9A, CHR 0xC3, CHR 0xBB, CHR 0xC2, CHR 0xB0, CHR 0xC3, CHR 0x94, CHR 0xE2, CHR 0x88, CHR 0x8F, CHR 0xC3, CHR 0xA8]"

definition mark_voice :: string where
  "mark_voice = [CHR 0xEF, CHR 0xA3, CHR 0xBF, CHR 0xC3, CHR 0xBC, CHR 0xC3, CHR 0xB3, CHR 0xC2, CHR 0xA3, CHR 0xC3, CHR 0x94, CHR 0xE2, CHR 0x88, CHR 0x8F, CHR 0xC3, CHR 0xA8]"

definition completionMarker :: string where
  "completionMarker = [CHR 0xE2, CHR 0x80, CHR 0x9A, CHR 0xC3, CHR 0xBA, CHR 0xC3, CHR 0xAC] @ '' COMPLETE''"

subsection \<open>ISC extraction helpers\<close>

text \<open>\<^verbatim>\<open>/level\s+(QUICK|STANDARD|THOROUGH|TRIVIAL)/i\<close>\<close>

definition effortPattern :: re where
  "effortPattern =
     seqs [litsI ''level'', Plus (Atom Space),
           Cap 1 (alts [litsI ''QUICK'', litsI ''STANDARD'', litsI ''THOROUGH'', litsI ''TRIVIAL''])]"

definition extractEffortLevel :: "string \<Rightarrow> string option" where
  "extractEffortLevel text =
     (case rx_exec effortPattern text of
        None \<Rightarrow> None
      | Some m \<Rightarrow> (case rx_group m 1 of None \<Rightarrow> None | Some g \<Rightarrow> Some (toUpperCase g)))"

text \<open>\<open>parseInt(s, 10)\<close> on a string of decimal digits. The value is the exact number; the
  source holds it in a double, which is exact below \<open>2^53\<close>.\<close>

definition digit_value :: "char \<Rightarrow> nat" where
  "digit_value c = of_char c - of_char CHR ''0''"

definition parseInt :: "string \<Rightarrow> nat" where
  "parseInt s = foldl (\<lambda>n c. 10 * n + digit_value c) 0 s"

text \<open>\<^verbatim>\<open>/(\d+)\s*(?:ISC\s*)?criteria?,?\s*all\s*satisfied/i\<close>\<close>

definition allSatisfiedPattern :: re where
  "allSatisfiedPattern =
     seqs [Cap 1 (Plus (Atom Digit)), Star (Atom Space),
           Opt (Seq (litsI ''ISC'') (Star (Atom Space))),
           litsI ''criteri'', Opt (Atom (IgnoreCase CHR ''a'')), Opt (Atom (Exactly CHR '','')),
           Star (Atom Space), litsI ''all'', Star (Atom Space), litsI ''satisfied'']"

text \<open>\<^verbatim>\<open>/(\d+)\/(\d+)\s*criteria\s*satisfied/i\<close>\<close>

definition partialPattern :: re where
  "partialPattern =
     seqs [Cap 1 (Plus (Atom Digit)), Atom (Exactly CHR ''/''), Cap 2 (Plus (Atom Digit)),
           Star (Atom Space), litsI ''criteria'', Star (Atom Space), litsI ''satisfied'']"

definition group_or_empty :: "rx_match \<Rightarrow> nat \<Rightarrow> string" where
  "group_or_empty m n = (case rx_group m n of None \<Rightarrow> [] | Some g \<Rightarrow> g)"

definition extractISCSatisfaction :: "string \<Rightarrow> Satisfaction option" where
  "extractISCSatisfaction text =
     (case rx_exec allSatisfiedPattern text of
        Some allSatisfied \<Rightarrow>
          (let n = parseInt (group_or_empty allSatisfied 1)
           in Some \<lparr>satisfied = n, partial = 0, failed = 0, total = n\<rparr>)
      | None \<Rightarrow>
          (case rx_exec partialPattern text of
             Some p \<Rightarrow>
               Some \<lparr>satisfied = parseInt (group_or_empty p 1), partial = 0, failed = 0,
                     total = parseInt (group_or_empty p 2)\<rparr>
           | None \<Rightarrow> None))"

subsection \<open>Task ISC update\<close>

definition taskPath :: "env \<Rightarrow> string \<Rightarrow> string \<Rightarrow> string" where
  "taskPath ev sessionDir currentTask =
     path_join (path_join (path_join (getWorkDir ev) sessionDir) ''tasks'') currentTask"

text \<open>\<open>JSON.parse(readFileSync(f, 'utf-8'))\<close>\<close>

definition iscPath :: "env \<Rightarrow> string \<Rightarrow> string \<Rightarrow> string" where
  "iscPath ev sessionDir currentTask = path_join (taskPath ev sessionDir currentTask) ''ISC.json''"

definition threadPath :: "env \<Rightarrow> string \<Rightarrow> string \<Rightarrow> string" where
  "threadPath ev sessionDir currentTask = path_join (taskPath ev sessionDir currentTask) ''THREAD.md''"

definition readISC :: "env \<Rightarrow> string \<Rightarrow> ISCDocument comp" where
  "readISC ev f =
     (if io_fault ev f then throw (IOError f)
      else andThen (reads (\<lambda>w. isc_files w f)) (\<lambda>file.
           case file of
             None \<Rightarrow> throw (IOError f)
           | Some (Malformed bytes) \<Rightarrow> throw SyntaxError
           | Some (Parsed doc) \<Rightarrow> ok doc))"

definition writeISC :: "env \<Rightarrow> string \<Rightarrow> ISCDocument \<Rightarrow> unit comp" where
  "writeISC ev f doc =
     (if io_fault ev f then throw (IOError f)
      else modify (\<lambda>w. w\<lparr>isc_files := (isc_files w)(f \<mapsto> Parsed doc),
                          written := written w @ [f]\<rparr>))"

text \<open>The changes \<open>updateTaskISC\<close> makes to the parsed document between reading and
  writing it (lines 125 to 143).\<close>

definition patchISC :: "string \<Rightarrow> string \<Rightarrow> ISCDocument \<Rightarrow> ISCDocument" where
  "patchISC text ts doc =
     (let doc1 = (case extractEffortLevel text of
                    Some effort \<Rightarrow> if effort \<noteq> [] then doc\<lparr>effortLevel := effort\<rparr> else doc
                  | None \<Rightarrow> doc);
          doc2 = (case extractISCSatisfaction text of
                    Some sat \<Rightarrow>
                      doc1\<lparr>satisfaction := Some sat,
                           status := (if satisfied sat = total sat then ''COMPLETE'' else ''PARTIAL'')\<rparr>
                  | None \<Rightarrow> doc1);
          doc3 = (if js_includes text completionMarker then doc2\<lparr>status := ''COMPLETE''\<rparr> else doc2)
      in doc3\<lparr>updatedAt := ts\<rparr>)"

definition updateTaskISC :: "env \<Rightarrow> string \<Rightarrow> string \<Rightarrow> string \<Rightarrow> unit comp" where
  "updateTaskISC ev sessionDir currentTask text =
     andThen (reads (\<lambda>w. isc_files w (iscPath ev sessionDir currentTask) \<noteq> None)) (\<lambda>present.
     if \<not> present
     then fileLog (''[ISC] Task ISC.json not found: '' @ iscPath ev sessionDir currentTask) Warn
     else tryCatch
            (andThen (readISC ev (iscPath ev sessionDir currentTask)) (\<lambda>doc.
             andThen (reads (getISOTimestamp ev)) (\<lambda>ts.
             andThen (writeISC ev (iscPath ev sessionDir currentTask) (patchISC text ts doc)) (\<lambda>_.
             fileLog (''[ISC] Updated task ISC: '' @ currentTask) Info))))
            (\<lambda>err. fileLogError ''[ISC] Error updating task ISC'' err))"


subsection \<open>Replacing a match\<close>

fun ngroups :: "re \<Rightarrow> nat" where
  "ngroups (Seq a b) = ngroups a + ngroups b"
| "ngroups (Alt a b) = ngroups a + ngroups b"
| "ngroups (Star a) = ngroups a"
| "ngroups (LazyStar a) = ngroups a"
| "ngroups (Cap n a) = Suc (ngroups a)"
| "ngroups a = 0"

text \<open>The replacement text of \<open>String.prototype.replace\<close> (ECMAScript's GetSubstitution)
  for a pattern with \<open>n\<close> groups and no named group: \<open>$$\<close> is a dollar, \<open>$&\<close> the match,
  \<open>$`\<close> the text before it, \<open>$'\<close> the text after it, \<open>$d\<close> and \<open>$dd\<close> a group (two
  digits are tried first; a group that took no part is empty), and any other dollar stays.\<close>

fun getSubstitution :: "nat \<Rightarrow> rx_match \<Rightarrow> string \<Rightarrow> string" where
  "getSubstitution n m [] = []"
| "getSubstitution n m [c] = [c]"
| "getSubstitution n m (c # d # t) =
     (if c \<noteq> CHR ''$'' then c # getSubstitution n m (d # t)
      else if d = CHR ''$'' then CHR ''$'' # getSubstitution n m t
      else if d = CHR ''&'' then matched m @ getSubstitution n m t
      else if d = CHR 0x60 then before m @ getSubstitution n m t
      else if d = CHR 0x27 then after m @ getSubstitution n m t
      else if is_digit d then
        (case t of
           e # t' \<Rightarrow>
             if is_digit e \<and> parseInt [d, e] \<le> n
             then (if 1 \<le> parseInt [d, e]
                   then group_or_empty m (parseInt [d, e]) @ getSubstitution n m t'
                   else c # d # e # getSubstitution n m t')
             else if 1 \<le> parseInt [d] \<and> parseInt [d] \<le> n
             then group_or_empty m (parseInt [d]) @ getSubstitution n m t
             else c # d # getSubstitution n m t
         | [] \<Rightarrow>
             if 1 \<le> parseInt [d] \<and> parseInt [d] \<le> n
             then group_or_empty m (parseInt [d])
             else [c, d])
      else c # getSubstitution n m (d # t))"

definition rx_replace :: "re \<Rightarrow> string \<Rightarrow> string \<Rightarrow> string" where
  "rx_replace a template s =
     (case rx_exec a s of
        None \<Rightarrow> s
      | Some m \<Rightarrow> before m @ getSubstitution (ngroups a) m template @ after m)"

subsection \<open>Task thread update\<close>

text \<open>\<^verbatim>\<open>/^status: "IN_PROGRESS"$/m\<close>\<close>

definition inProgressLine :: string where
  \<open>inProgressLine = ''status: "IN_PROGRESS"''\<close>

definition doneLine :: string where
  \<open>doneLine = ''status: "DONE"''\<close>

definition statusLine :: re where
  "statusLine = seqs [BolM, lits inProgressLine, EolM]"

text \<open>\<^verbatim>\<open>/^(---\n[\s\S]*?)(---)/\<close>\<close>

definition frontmatter :: re where
  "frontmatter =
     seqs [Bol, Cap 1 (Seq (lits (''---'' @ nl)) (LazyStar (Atom AnyChar))), Cap 2 (lits ''---'')]"

definition truthy :: "string option \<Rightarrow> bool" where
  "truthy x = (case x of None \<Rightarrow> False | Some s \<Rightarrow> s \<noteq> [])"

definition first_truthy :: "string option \<Rightarrow> string option \<Rightarrow> string \<Rightarrow> string" where
  "first_truthy a b d =
     (if truthy a then (case a of Some s \<Rightarrow> s | None \<Rightarrow> d)
      else if truthy b then (case b of Some s \<Rightarrow> s | None \<Rightarrow> d)
      else d)"

definition escape_quotes :: "string \<Rightarrow> string" where
  "escape_quotes s = concat (map (\<lambda>c. if c = CHR 0x22 then [CHR 0x5C, CHR 0x22] else [c]) s)"

definition flipStatus :: "string \<Rightarrow> string" where
  "flipStatus content = rx_replace statusLine doneLine content"

definition addCompletedAt :: "string \<Rightarrow> string \<Rightarrow> string" where
  \<open>addCompletedAt ts content =
     (if \<not> js_includes content ''completedAt:''
      then rx_replace frontmatter (''$1completedAt: "'' @ ts @ ''"'' @ nl @ ''$2'') content
      else content)\<close>

text \<open>\<open>(structured.completed || structured.summary || '').substring(0, 200)\<close>\<close>

definition summaryOf :: "StructuredResponse \<Rightarrow> string" where
  "summaryOf structured =
     take 200 (first_truthy (r_completed structured) (r_summary structured) [])"

definition addSummary :: "StructuredResponse \<Rightarrow> string \<Rightarrow> string" where
  \<open>addSummary structured content =
     (let summary = summaryOf structured
      in if summary \<noteq> [] \<and> \<not> js_includes content ''summary:''
         then rx_replace frontmatter
                (''$1summary: "'' @ escape_quotes summary @ ''"'' @ nl @ ''$2'') content
         else content)\<close>

text \<open>The changes \<open>updateTaskMeta\<close> makes to the text of the thread document between
  reading and writing it (lines 168 to 182).\<close>

definition patchThread :: "StructuredResponse \<Rightarrow> string \<Rightarrow> string \<Rightarrow> string" where
  "patchThread structured ts content =
     (if truthy (r_completed structured) \<or> truthy (r_summary structured)
      then addSummary structured (addCompletedAt ts (flipStatus content))
      else content)"

definition readThread :: "env \<Rightarrow> string \<Rightarrow> string comp" where
  "readThread ev f =
     (if io_fault ev f then throw (IOError f)
      else andThen (reads (\<lambda>w. thread_files w f)) (\<lambda>file.
           case file of
             None \<Rightarrow> throw (IOError f)
           | Some content \<Rightarrow> ok content))"

definition writeThread :: "env \<Rightarrow> string \<Rightarrow> string \<Rightarrow> unit comp" where
  "writeThread ev f content =
     (if io_fault ev f then throw (IOError f)
      else modify (\<lambda>w. w\<lparr>thread_files := (thread_files w)(f \<mapsto> content),
                          written := written w @ [f]\<rparr>))"

definition updateTaskMeta :: "env \<Rightarrow> string \<Rightarrow> string \<Rightarrow> StructuredResponse \<Rightarrow> unit comp" where
  "updateTaskMeta ev sessionDir currentTask structured =
     andThen (reads (\<lambda>w. thread_files w (threadPath ev sessionDir currentTask) \<noteq> None)) (\<lambda>present.
     if \<not> present
     then fileLog (''[Capture] Task THREAD.md not found: '' @ threadPath ev sessionDir currentTask) Warn
     else tryCatch
            (andThen (readThread ev (threadPath ev sessionDir currentTask)) (\<lambda>content.
             andThen (reads (getISOTimestamp ev)) (\<lambda>ts.
             andThen (writeThread ev (threadPath ev sessionDir currentTask)
                        (patchThread structured ts content)) (\<lambda>_.
             fileLog (''[Capture] Updated task THREAD: '' @ currentTask) Info))))
            (\<lambda>err. fileLogError ''[Capture] Error updating task META'' err))"


subsection \<open>Main capture logic\<close>

definition readCurrentWork :: "env \<Rightarrow> world \<Rightarrow> CurrentWork option" where
  "readCurrentWork ev w =
     (case current_work_file w of
        None \<Rightarrow> None
      | Some (Malformed bytes) \<Rightarrow> None
      | Some (Parsed cw) \<Rightarrow>
          if io_fault ev (path_join (getStateDir ev) ''current-work.json'') then None else Some cw)"

text \<open>The patterns of \<open>parseStructuredResponse\<close>, in its order:
  \<^verbatim>\<open>/<summary>\s*SUMMARY:\s*(.+?)(?:\n|$)/i\<close>,
  \<^verbatim>\<open>/<analysis>\s*ANALYSIS:\s*(.+?)(?:\n(?:<actions>|<results>|<status>|<next>)|$)/is\<close>,
  \<^verbatim>\<open>/<actions>\s*ACTIONS:\s*(.+?)(?:\n(?:<results>|<status>|<next>)|$)/is\<close>,
  \<^verbatim>\<open>/<results>\s*RESULTS:\s*(.+?)(?:\n(?:<status>|<next>)|$)/is\<close>,
  \<^verbatim>\<open>/<status>\s*STATUS:\s*(.+?)(?:\n|$)/i\<close>,
  \<^verbatim>\<open>/<next>\s*NEXT:\s*(.+?)(?:\n|$)/is\<close> and
  \<^verbatim>\<open>/<voice>\s*\w+:\s*(.+?)$/m\<close>, with the markers written by name.\<close>

definition section_pattern :: "string \<Rightarrow> string \<Rightarrow> cset \<Rightarrow> re \<Rightarrow> re" where
  "section_pattern mark label dot stop =
     seqs [lits mark, Star (Atom Space), litsI label, Star (Atom Space),
           Cap 1 (LazyPlus (Atom dot)), stop]"

definition summaryPattern :: re where
  "summaryPattern = section_pattern mark_summary ''SUMMARY:'' Dot (Alt (lits nl) Eol)"

definition analysisPattern :: re where
  "analysisPattern =
     section_pattern mark_analysis ''ANALYSIS:'' AnyChar
       (Alt (Seq (lits nl) (alts [lits mark_actions, lits mark_results, lits mark_status, lits mark_next]))
            Eol)"

definition actionsPattern :: re where
  "actionsPattern =
     section_pattern mark_actions ''ACTIONS:'' AnyChar
       (Alt (Seq (lits nl) (alts [lits mark_results, lits mark_status, lits mark_next])) Eol)"

definition resultsPattern :: re where
  "resultsPattern =
     section_pattern mark_results ''RESULTS:'' AnyChar
       (Alt (Seq (lits nl) (alts [lits mark_status, lits mark_next])) Eol)"

definition statusPattern :: re where
  "statusPattern = section_pattern mark_status ''STATUS:'' Dot (Alt (lits nl) Eol)"

definition nextPattern :: re where
  "nextPattern = section_pattern mark_next ''NEXT:'' AnyChar (Alt (lits nl) Eol)"

definition completedPattern :: re where
  "completedPattern =
     seqs [lits mark_voice, Star (Atom Space), Plus (Atom Word), Atom (Exactly CHR '':''),
           Star (Atom Space), Cap 1 (LazyPlus (Atom Dot)), EolM]"

definition extract_section :: "re \<Rightarrow> string \<Rightarrow> string option" where
  "extract_section a text =
     (case rx_exec a text of
        None \<Rightarrow> None
      | Some m \<Rightarrow> Some (trim (group_or_empty m 1)))"

definition parseStructuredResponse :: "string \<Rightarrow> StructuredResponse" where
  "parseStructuredResponse text =
     \<lparr>r_summary = extract_section summaryPattern text,
      r_analysis = extract_section analysisPattern text,
      r_actions = extract_section actionsPattern text,
      r_results = extract_section resultsPattern text,
      r_status = extract_section statusPattern text,
      r_next = extract_section nextPattern text,
      r_completed = extract_section completedPattern text,
      r_date = None\<rparr>"

definition captureLearning :: "env \<Rightarrow> string \<Rightarrow> StructuredResponse \<Rightarrow> unit comp" where
  "captureLearning ev text structured =
     andThen (reads (getYearMonth ev)) (\<lambda>yearMonth.
     andThen (reads (\<lambda>w. learningFilename ev structured (clock w))) (\<lambda>filename.
     let category = getLearningCategory ev text [];
         targetDir = path_join (path_join (path_join (getMemoryDir ev) ''LEARNING'') category) yearMonth
     in andThen (ensureDir ev targetDir) (\<lambda>_.
        let filePath = path_join targetDir filename
        in andThen (reads (getPSTTimestamp ev)) (\<lambda>ts.
           andThen (writeLearningFile ev filePath (WorkLearning structured text ts)) (\<lambda>_.
           fileLog (mark_results @ '' Captured learning to: '' @ filePath) Info)))))"

text \<open>The Task State Updater: the two updates \<open>captureWorkSummary\<close> makes for the
  current task (lines 316 to 321).\<close>

definition updateTaskState :: "env \<Rightarrow> string \<Rightarrow> string \<Rightarrow> string \<Rightarrow> StructuredResponse \<Rightarrow> unit comp" where
  "updateTaskState ev sessionDir currentTask text structured =
     andThen (updateTaskISC ev sessionDir currentTask text)
       (\<lambda>_. whenever (truthy (r_summary structured) \<or> truthy (r_completed structured))
               (updateTaskMeta ev sessionDir currentTask structured))"

definition captureWorkSummary :: "env \<Rightarrow> string \<Rightarrow> StructuredResponse \<Rightarrow> unit comp" where
  "captureWorkSummary ev text structured =
     tryCatch
       (andThen (reads (readCurrentWork ev)) (\<lambda>currentWork.
        andThen
          (case currentWork of
             None \<Rightarrow> ok ()
           | Some cw \<Rightarrow>
               if session_dir cw \<noteq> [] \<and> current_task cw \<noteq> []
               then updateTaskState ev (session_dir cw) (current_task cw) text structured
               else ok ())
          (\<lambda>_. whenever (isLearningCapture ev text (r_summary structured) (r_analysis structured))
                  (captureLearning ev text structured))))
       (\<lambda>err. fileLogError ''[Capture] Error capturing work summary'' err)"

definition handleResponseCapture :: "env \<Rightarrow> string \<Rightarrow> string \<Rightarrow> unit comp" where
  "handleResponseCapture ev text sessionId =
     tryCatch
       (andThen (fileLog (''[Capture] Processing response (length: ''
                          @ number_text ev (real (length text)) @ '')'') Debug) (\<lambda>_.
        andThen (tryCatch (captureWorkSummary ev text (parseStructuredResponse text))
                   (\<lambda>err. fileLogError ''[Capture] Work summary capture failed (non-critical)'' err)) (\<lambda>_.
        fileLog ''[Capture] Response capture complete'' Info)))
       (\<lambda>err. fileLogError ''[Capture] handleResponseCapture failed'' err)"


section \<open>Notions used in the statements and proofs\<close>




definition keeps :: "(world \<Rightarrow> 'b) \<Rightarrow> 'a comp \<Rightarrow> bool" where
  "keeps f m = (\<forall>w. f (snd (m w)) = f w)"


section \<open>Sample inputs\<close>

text \<open>An environment whose inference always behaves as the given promise and whose file
  system has no fault, and a world with no files.\<close>

definition sample_env :: "InferenceResult promise \<Rightarrow> env" where
  "sample_env p =
     \<lparr>inference = (\<lambda>_. p),
      getLearningCategory = (\<lambda>_ _. ''ALGORITHM''),
      isLearningCapture = (\<lambda>_ _ _. False),
      getLearningDir = ''/pai/MEMORY/LEARNING'',
      getMemoryDir = ''/pai/MEMORY'',
      getWorkDir = ''/pai/MEMORY/WORK'',
      getStateDir = ''/pai/MEMORY/STATE'',
      toISOString = (\<lambda>_. ''2026-02-02T14:30:00.000Z''),
      yearMonth = (\<lambda>_. ''2026-02''),
      pstTimestamp = (\<lambda>_. ''2026-02-02T06:30:00''),
      number_text = (\<lambda>_. ''#''),
      learningFilename = (\<lambda>_ _. ''2026-02-02-063000_LEARNING_task-completion.md''),
      io_fault = (\<lambda>_. False)\<rparr>"

definition sample_world :: world where
  "sample_world =
     \<lparr>clock = 0, log = [], dirs = {}, ratings = [], learning_files = Map.empty,
      isc_files = Map.empty, thread_files = Map.empty, current_work_file = None,
      transcripts = Map.empty, inference_calls = 0, written = []\<rparr>"

definition sample_result :: "real option \<Rightarrow> real \<Rightarrow> InferenceResult" where
  "sample_result r c =
     \<lparr>success = True,
      parsed = Some \<lparr>rating = r, sentiment = Neutral, confidence = c,
                     summary = ''summary'', detailed_context = ''context''\<rparr>,
      error = []\<rparr>"


definition sample_isc_path :: string where
  "sample_isc_path = ''/pai/MEMORY/WORK/session-1/tasks/001_fix-login/ISC.json''"

definition sample_thread_path :: string where
  "sample_thread_path = ''/pai/MEMORY/WORK/session-1/tasks/001_fix-login/THREAD.md''"

definition sample_thread :: string where
  \<open>sample_thread =
     ''---'' @ nl @ ''status: "IN_PROGRESS"'' @ nl @ ''---'' @ nl @ ''# Thread'' @ nl\<close>

definition sample_task_world :: "ISCDocument json_file \<Rightarrow> world" where
  "sample_task_world f =
     sample_world\<lparr>isc_files := [sample_isc_path \<mapsto> f],
                  thread_files := [sample_thread_path \<mapsto> sample_thread],
                  current_work_file :=
                    Some (Parsed \<lparr>cw_session_id = ''s1'', session_dir = ''session-1'',
                                   current_task = ''001_fix-login'', task_count = 1,
                                   created_at = ''2026-02-01T10:00:00.000Z''\<rparr>)\<rparr>"



section \<open>Lemmas on computations\<close>

lemmas comp_defs = ok_def throw_def andThen_def tryCatch_def modify_def reads_def whenever_def
  fileLog_def fileLogError_def

lemma keepsD: "keeps f m \<Longrightarrow> f (snd (m w)) = f w"
  by (simp add: keeps_def)

lemma keeps_ok: "keeps f (ok x)"
  by (simp add: keeps_def ok_def)

lemma keeps_throw: "keeps f (throw e)"
  by (simp add: keeps_def throw_def)

lemma keeps_reads: "keeps f (reads g)"
  by (simp add: keeps_def reads_def)

lemma keeps_modify: "(\<And>w. f (g w) = f w) \<Longrightarrow> keeps f (modify g)"
  by (simp add: keeps_def modify_def)

lemma keeps_andThen: "keeps f m \<Longrightarrow> (\<And>x. keeps f (k x)) \<Longrightarrow> keeps f (andThen m k)"
  by (auto simp: keeps_def andThen_def split: prod.splits sum.splits) (metis snd_conv)+

lemma keeps_tryCatch: "keeps f m \<Longrightarrow> (\<And>e. keeps f (h e)) \<Longrightarrow> keeps f (tryCatch m h)"
  by (auto simp: keeps_def tryCatch_def split: prod.splits sum.splits) (metis snd_conv)+

lemma keeps_whenever: "keeps f m \<Longrightarrow> keeps f (whenever b m)"
  by (simp add: whenever_def keeps_ok)

lemma keeps_fileLog: "(\<And>w l. f (w\<lparr>log := l\<rparr>) = f w) \<Longrightarrow> keeps f (fileLog msg lv)"
  by (simp add: fileLog_def keeps_modify)

lemma keeps_fileLogError: "(\<And>w l. f (w\<lparr>log := l\<rparr>) = f w) \<Longrightarrow> keeps f (fileLogError msg e)"
  by (simp add: fileLogError_def keeps_modify)

lemma keeps_mkdirSync: "(\<And>w l. f (w\<lparr>dirs := l\<rparr>) = f w) \<Longrightarrow> keeps f (mkdirSync ev d)"
  by (simp add: mkdirSync_def keeps_modify keeps_throw)

lemma keeps_ensureDir: "(\<And>w l. f (w\<lparr>dirs := l\<rparr>) = f w) \<Longrightarrow> keeps f (ensureDir ev d)"
  by (simp add: ensureDir_def keeps_andThen keeps_reads keeps_whenever keeps_mkdirSync)

lemma keeps_appendFileSync:
  "(\<And>w l k. f (w\<lparr>ratings := l, written := k\<rparr>) = f w) \<Longrightarrow> keeps f (appendFileSync ev p e)"
  by (simp add: appendFileSync_def keeps_modify keeps_throw)

lemma keeps_writeLearningFile:
  "(\<And>w l k. f (w\<lparr>learning_files := l, written := k\<rparr>) = f w) \<Longrightarrow> keeps f (writeLearningFile ev p e)"
  by (simp add: writeLearningFile_def keeps_modify keeps_throw)

lemma keeps_awaitRace: "(\<And>w l. f (w\<lparr>clock := l\<rparr>) = f w) \<Longrightarrow> keeps f (awaitRace p ms)"
  by (simp add: keeps_def awaitRace_def split: promise.splits)

lemmas keeps_intros = keeps_ok keeps_throw keeps_reads keeps_andThen keeps_tryCatch keeps_whenever
  keeps_fileLog keeps_fileLogError keeps_ensureDir keeps_appendFileSync keeps_writeLearningFile

lemma keeps_writeImplicitRating:
  "(\<And>w l. f (w\<lparr>log := l\<rparr>) = f w) \<Longrightarrow> (\<And>w l. f (w\<lparr>dirs := l\<rparr>) = f w) \<Longrightarrow>
   (\<And>w l k. f (w\<lparr>ratings := l, written := k\<rparr>) = f w) \<Longrightarrow> keeps f (writeImplicitRating ev e)"
  by (simp add: writeImplicitRating_def Let_def keeps_intros)

lemma keeps_captureLowRatingLearning:
  "(\<And>w l. f (w\<lparr>log := l\<rparr>) = f w) \<Longrightarrow> (\<And>w l. f (w\<lparr>dirs := l\<rparr>) = f w) \<Longrightarrow>
   (\<And>w l k. f (w\<lparr>learning_files := l, written := k\<rparr>) = f w) \<Longrightarrow>
   keeps f (captureLowRatingLearning ev r a b c)"
  by (simp add: captureLowRatingLearning_def Let_def keeps_intros)

lemma keeps_recordSentiment:
  "(\<And>w l. f (w\<lparr>log := l\<rparr>) = f w) \<Longrightarrow> (\<And>w l. f (w\<lparr>dirs := l\<rparr>) = f w) \<Longrightarrow>
   (\<And>w l k. f (w\<lparr>learning_files := l, written := k\<rparr>) = f w) \<Longrightarrow>
   (\<And>w l k. f (w\<lparr>ratings := l, written := k\<rparr>) = f w) \<Longrightarrow>
   keeps f (recordSentiment ev sid tp s)"
  by (simp add: recordSentiment_def Let_def keeps_intros keeps_writeImplicitRating
      keeps_captureLowRatingLearning split: option.splits)

lemma contextFor_log [simp]: "contextFor ev tp (w\<lparr>log := l\<rparr>) = contextFor ev tp w"
  by (simp add: contextFor_def getRecentContext_def split: option.splits)

lemma handler_cases:
  "handleImplicitSentiment ev prompt sid tp w =
     (if isExplicitRating prompt
      then (Inr None, w\<lparr>log := log w @ [(Info, ''[ImplicitSentiment] Handler started''),
             (Info, ''[ImplicitSentiment] Explicit rating detected, deferring to ExplicitRatingCapture'')]\<rparr>)
      else if length prompt < MIN_PROMPT_LENGTH
      then (Inr None, w\<lparr>log := log w @ [(Info, ''[ImplicitSentiment] Handler started''),
             (Debug, ''[ImplicitSentiment] Prompt too short, exiting'')]\<rparr>)
      else tryCatch
             (andThen (awaitSentiment ev prompt (contextFor ev tp w)) (\<lambda>sentiment.
                case sentiment of
                  None \<Rightarrow> andThen (fileLog ''[ImplicitSentiment] Analysis failed or timed out'' Warn)
                                  (\<lambda>_. ok None)
                | Some s \<Rightarrow> recordSentiment ev sid tp s))
             (\<lambda>err. andThen (fileLogError ''[ImplicitSentiment] Error'' err) (\<lambda>_. ok None))
             (w\<lparr>log := log w @ [(Info, ''[ImplicitSentiment] Handler started'')]\<rparr>))"
  by (simp add: handleImplicitSentiment_def comp_defs)

lemma awaitSentiment_calls:
  "inference_calls (snd (awaitSentiment ev p c w)) = Suc (inference_calls w)"
  by (cases "inference ev (userPrompt p c)")
     (simp_all add: awaitSentiment_def awaitRace_def analyzeSentiment_def comp_defs)


lemma awaitSentiment_resolves:
  "inference ev (userPrompt p c) = Resolves t res \<Longrightarrow>
   awaitSentiment ev p c w =
     (if t \<le> ANALYSIS_TIMEOUT
      then if success res \<and> parsed res \<noteq> None
           then (Inr (parsed res), w\<lparr>inference_calls := Suc (inference_calls w), clock := clock w + t\<rparr>)
           else (Inr None, w\<lparr>inference_calls := Suc (inference_calls w), clock := clock w + t,
                   log := log w @ [(Err, ''[ImplicitSentiment] Inference failed: '' @ error res)]\<rparr>)
      else (Inr None, w\<lparr>inference_calls := Suc (inference_calls w), clock := clock w + ANALYSIS_TIMEOUT\<rparr>))"
  by (simp add: awaitSentiment_def awaitRace_def analyzeSentiment_def comp_defs)


lemma guard_rating: "isExplicitRating ''8 great job''" by code_simp
lemma guard_sentence: "\<not> isExplicitRating ''3 bugs remain''" by code_simp

text \<open>
  Claim C3. The guard takes \<open>8 great job\<close> for an explicit rating, and the handler then
  returns \<open>null\<close> without a call of the inference collaborator; it does not take
  \<open>3 bugs remain\<close> for one, and the handler then starts the analysis (one call of the
  inference collaborator), whatever the environment, the session, the transcript path and
  the world are.
\<close>

theorem explicit_rating_guard:
  "isExplicitRating ''8 great job'' \<and> \<not> isExplicitRating ''3 bugs remain'' \<and>
   fst (handleImplicitSentiment ev ''8 great job'' sid tp w) = Inr None \<and>
   inference_calls (snd (handleImplicitSentiment ev ''8 great job'' sid tp w)) = inference_calls w \<and>
   inference_calls (snd (handleImplicitSentiment ev ''3 bugs remain'' sid tp w)) = Suc (inference_calls w)"
proof -
  let ?after = "\<lambda>sentiment. case sentiment of
                  None \<Rightarrow> andThen (fileLog ''[ImplicitSentiment] Analysis failed or timed out'' Warn)
                                  (\<lambda>_. ok None)
                | Some s \<Rightarrow> recordSentiment ev sid tp s"
  let ?h = "\<lambda>err. andThen (fileLogError ''[ImplicitSentiment] Error'' err) (\<lambda>_. ok (None :: (real \<times> sentiment_label \<times> real) option))"
  let ?w1 = "w\<lparr>log := log w @ [(Info, ''[ImplicitSentiment] Handler started'')]\<rparr>"
  let ?c = "contextFor ev tp w"
  obtain r1 w2 where a: "awaitSentiment ev ''3 bugs remain'' ?c ?w1 = (r1, w2)"
    by (cases "awaitSentiment ev ''3 bugs remain'' ?c ?w1")
  have c2: "inference_calls w2 = Suc (inference_calls w)"
    using awaitSentiment_calls [of ev "''3 bugs remain''" ?c ?w1] a by simp
  have k1: "keeps inference_calls (?after x)" for x
    by (cases x) (simp_all add: keeps_intros keeps_recordSentiment)
  have k2: "keeps inference_calls (?h e)" for e
    by (simp add: keeps_intros)
  have "inference_calls (snd (handleImplicitSentiment ev ''3 bugs remain'' sid tp w)) = Suc (inference_calls w)"
  proof (cases r1)
    case (Inl e)
    then show ?thesis
      using a c2 keepsD [OF k2, of e w2]
      by (simp add: handler_cases guard_sentence MIN_PROMPT_LENGTH_def tryCatch_def andThen_def)
  next
    case (Inr x)
    obtain r3 w3 where b: "?after x w2 = (r3, w3)" by (cases "?after x w2")
    have c3: "inference_calls w3 = Suc (inference_calls w)"
      using keepsD [OF k1, of x w2] b c2 by simp
    show ?thesis
    proof (cases r3)
      case (Inl e)
      then show ?thesis
        using a b c3 Inr keepsD [OF k2, of e w3]
        by (simp add: handler_cases guard_sentence MIN_PROMPT_LENGTH_def tryCatch_def andThen_def)
    next
      case (Inr y)
      then show ?thesis
        using a b c3 \<open>r1 = Inr x\<close>
        by (simp add: handler_cases guard_sentence MIN_PROMPT_LENGTH_def tryCatch_def andThen_def)
    qed
  qed
  then show ?thesis
    by (simp add: guard_rating guard_sentence handler_cases)
qed

lemma tryCatch_fst_Inr: "fst (m w) = Inr x \<Longrightarrow> tryCatch m h w = m w"
  by (cases "m w") (simp add: tryCatch_def)

lemma recordSentiment_low:
  "confidence s < MIN_CONFIDENCE \<Longrightarrow>
   fst (recordSentiment ev sid tp s w) = Inr None \<and>
   ratings (snd (recordSentiment ev sid tp s w)) = ratings w \<and>
   learning_files (snd (recordSentiment ev sid tp s w)) = learning_files w \<and>
   written (snd (recordSentiment ev sid tp s w)) = written w"
  by (cases "rating s") (simp_all add: recordSentiment_def comp_defs)

text \<open>
  Claim C2. When the inference resolves with a parsed sentiment whose confidence is below
  \<open>MIN_CONFIDENCE\<close>, whatever its rating, the handler returns \<open>null\<close>, the ratings file
  and the learning files are as before, and no file was written.
\<close>

theorem low_confidence_persists_nothing:
  assumes "inference ev (userPrompt prompt (contextFor ev tp w)) = Resolves t res"
    and "parsed res = Some s"
    and "confidence s < MIN_CONFIDENCE"
  shows "fst (handleImplicitSentiment ev prompt sid tp w) = Inr None \<and>
         ratings (snd (handleImplicitSentiment ev prompt sid tp w)) = ratings w \<and>
         learning_files (snd (handleImplicitSentiment ev prompt sid tp w)) = learning_files w \<and>
         written (snd (handleImplicitSentiment ev prompt sid tp w)) = written w"
proof -
  let ?w1 = "w\<lparr>log := log w @ [(Info, ''[ImplicitSentiment] Handler started'')]\<rparr>"
  let ?w2 = "?w1\<lparr>inference_calls := Suc (inference_calls ?w1), clock := clock ?w1 + t\<rparr>"
  note l = recordSentiment_low [OF assms(3), of ev sid tp ?w2]
  have "tryCatch (recordSentiment ev sid tp s) h ?w2 = recordSentiment ev sid tp s ?w2" for h
    using l by (simp add: tryCatch_fst_Inr)
  then show ?thesis
    using assms(1,2) l
    by (simp add: handler_cases awaitSentiment_resolves comp_defs)
qed













lemma sample_no_context [simp]: "contextFor ev None w = []"
  by (simp add: contextFor_def)





theorem low_confidence_persists_nothing_witness:
  "fst (handleImplicitSentiment (sample_env (Resolves 100 (sample_result (Some 2) (3 / 10))))
          ''This is broken again'' ''s1'' (Some ''/pai/transcript.jsonl'') sample_world) = Inr None \<and>
   ratings (snd (handleImplicitSentiment (sample_env (Resolves 100 (sample_result (Some 2) (3 / 10))))
          ''This is broken again'' ''s1'' (Some ''/pai/transcript.jsonl'') sample_world)) = [] \<and>
   learning_files (snd (handleImplicitSentiment (sample_env (Resolves 100 (sample_result (Some 2) (3 / 10))))
          ''This is broken again'' ''s1'' (Some ''/pai/transcript.jsonl'') sample_world)) = Map.empty \<and>
   written (snd (handleImplicitSentiment (sample_env (Resolves 100 (sample_result (Some 2) (3 / 10))))
          ''This is broken again'' ''s1'' (Some ''/pai/transcript.jsonl'') sample_world)) = []"
  using low_confidence_persists_nothing
    [of "sample_env (Resolves 100 (sample_result (Some 2) (3 / 10)))" "''This is broken again''"
        "Some ''/pai/transcript.jsonl''" sample_world 100 "sample_result (Some 2) (3 / 10)"
        "\<lparr>rating = Some 2, sentiment = Neutral, confidence = 3 / 10, summary = ''summary'',
          detailed_context = ''context''\<rparr>" "''s1''"]
  by (simp add: sample_env_def sample_result_def sample_world_def MIN_CONFIDENCE_def)



lemma updateTaskISC_missing:
  "isc_files w (iscPath ev sd ct) = None \<Longrightarrow>
   updateTaskISC ev sd ct text w =
     (Inr (), w\<lparr>log := log w @ [(Warn, ''[ISC] Task ISC.json not found: '' @ iscPath ev sd ct)]\<rparr>)"
  by (simp add: updateTaskISC_def comp_defs)

lemma updateTaskISC_malformed:
  "isc_files w (iscPath ev sd ct) = Some (Malformed bytes) \<Longrightarrow>
   updateTaskISC ev sd ct text w =
     (Inr (), w\<lparr>log := log w @ [(Err, ''[ISC] Error updating task ISC'')]\<rparr>)"
  by (simp add: updateTaskISC_def readISC_def comp_defs)













lemma updateTaskMeta_missing:
  "thread_files w (threadPath ev sd ct) = None \<Longrightarrow>
   updateTaskMeta ev sd ct structured w =
     (Inr (), w\<lparr>log := log w @ [(Warn, ''[Capture] Task THREAD.md not found: '' @ threadPath ev sd ct)]\<rparr>)"
  by (simp add: updateTaskMeta_def comp_defs)

lemma tryCatch_returns:
  assumes "\<And>e w'. \<exists>x. fst (h e w') = Inr x"
  shows "\<exists>x. fst (tryCatch m h w) = Inr x"
proof -
  obtain r w' where m: "m w = (r, w')" by (cases "m w")
  show ?thesis
  proof (cases r)
    case (Inl e)
    then show ?thesis using m assms [of e w'] by (simp add: tryCatch_def)
  next
    case (Inr x)
    then show ?thesis using m by (simp add: tryCatch_def)
  qed
qed

lemma handleResponseCapture_returns: "fst (handleResponseCapture ev text sid w) = Inr ()"
proof -
  have "\<exists>x. fst (handleResponseCapture ev text sid w) = Inr x"
    unfolding handleResponseCapture_def
    by (rule tryCatch_returns) (simp add: comp_defs)
  then show ?thesis by simp
qed

lemma handleImplicitSentiment_returns: "\<exists>r. fst (handleImplicitSentiment ev prompt sid tp w) = Inr r"
  unfolding handleImplicitSentiment_def
  by (rule tryCatch_returns) (simp add: comp_defs)

text \<open>
  Claim C7. A missing ISC document and a missing thread document are each logged with a
  warning and nothing else changes; an ISC document that does not parse is reported in the
  log and nothing else changes, so the file keeps its bytes; and neither
  \<open>handleResponseCapture\<close> nor \<open>handleImplicitSentiment\<close> throws, whatever the input and the
  world (the logger being taken not to throw).
\<close>

theorem updater_failure_semantics:
  "(isc_files w (iscPath ev sd ct) = None \<longrightarrow>
      updateTaskISC ev sd ct text w =
        (Inr (), w\<lparr>log := log w @ [(Warn, ''[ISC] Task ISC.json not found: '' @ iscPath ev sd ct)]\<rparr>)) \<and>
   (thread_files w (threadPath ev sd ct) = None \<longrightarrow>
      updateTaskMeta ev sd ct structured w =
        (Inr (), w\<lparr>log := log w @ [(Warn, ''[Capture] Task THREAD.md not found: '' @ threadPath ev sd ct)]\<rparr>)) \<and>
   (\<forall>bytes. isc_files w (iscPath ev sd ct) = Some (Malformed bytes) \<longrightarrow>
      updateTaskISC ev sd ct text w =
        (Inr (), w\<lparr>log := log w @ [(Err, ''[ISC] Error updating task ISC'')]\<rparr>)) \<and>
   fst (handleResponseCapture ev text sid w) = Inr () \<and>
   (\<exists>r. fst (handleImplicitSentiment ev prompt sid tp w) = Inr r)"
  by (simp add: updateTaskISC_missing updateTaskMeta_missing updateTaskISC_malformed
      handleResponseCapture_returns handleImplicitSentiment_returns)

lemma sample_isc_path_eq [simp]:
  "iscPath (sample_env p) ''session-1'' ''001_fix-login'' = sample_isc_path"
  by (simp add: iscPath_def taskPath_def path_join_def sample_env_def sample_isc_path_def)

lemma sample_thread_path_eq [simp]:
  "threadPath (sample_env p) ''session-1'' ''001_fix-login'' = sample_thread_path"
  by (simp add: threadPath_def taskPath_def path_join_def sample_env_def sample_thread_path_def)

lemma sample_task_world_isc [simp]: "isc_files (sample_task_world f) sample_isc_path = Some f"
  by (simp add: sample_task_world_def)

lemma sample_no_fault [simp]: "\<not> io_fault (sample_env p) q"
  by (simp add: sample_env_def)

lemma sample_iso [simp]: "getISOTimestamp (sample_env p) w = ''2026-02-02T14:30:00.000Z''"
  by (simp add: getISOTimestamp_def sample_env_def)

lemma sample_task_world_written [simp]: "written (sample_task_world f) = []"
  by (simp add: sample_task_world_def sample_world_def)

lemma sample_task_world_log [simp]: "log (sample_task_world f) = []"
  by (simp add: sample_task_world_def sample_world_def)

theorem updater_failure_semantics_witness:
  "updateTaskISC (sample_env Never) ''session-1'' ''001_fix-login'' ''6 criteria, all satisfied'' sample_world =
     (Inr (), sample_world\<lparr>log := [(Warn, ''[ISC] Task ISC.json not found: '' @ sample_isc_path)]\<rparr>) \<and>
   updateTaskMeta (sample_env Never) ''session-1'' ''001_fix-login''
       (parseStructuredResponse ''6 criteria, all satisfied'') sample_world =
     (Inr (), sample_world\<lparr>log := [(Warn, ''[Capture] Task THREAD.md not found: '' @ sample_thread_path)]\<rparr>) \<and>
   updateTaskISC (sample_env Never) ''session-1'' ''001_fix-login'' ''6 criteria, all satisfied''
       (sample_task_world (Malformed ''{ broken''))  =
     (Inr (), (sample_task_world (Malformed ''{ broken''))\<lparr>log := [(Err, ''[ISC] Error updating task ISC'')]\<rparr>)"
  using updater_failure_semantics [of sample_world "sample_env Never" "''session-1''" "''001_fix-login''"
          "''6 criteria, all satisfied''" "parseStructuredResponse ''6 criteria, all satisfied''"]
        updater_failure_semantics [of "sample_task_world (Malformed ''{ broken'')" "sample_env Never"
          "''session-1''" "''001_fix-login''" "''6 criteria, all satisfied''"]
  by (simp add: sample_world_def sample_task_world_def)















section \<open>The patterns of the thread update\<close>

declare rmatch.simps(5,6) [simp del]
































































end
